theory Spec2Isabelle
  imports Main
begin

section \<open>Exceptions of the merge job (marge/job.py)\<close>

text \<open>
  Python exceptions are values. \<open>CannotMerge\<close> and \<open>SkipMerge\<close> carry the
  constructor arguments (\<open>self.args\<close>); every construction in job.py passes strings.
  \<open>GitError\<close> (raised by the Git working copy) carries its printed form \<open>str(exc)\<close>.
  \<open>UnboundLocalError\<close> carries the name of the local variable read before assignment,
  \<open>AssertionError\<close> is what a failing \<open>assert\<close> raises.
\<close>

datatype exn =
    CannotMerge "string list"
  | SkipMerge "string list"
  | GitError string
  | UnboundLocalError string
  | AssertionError

text \<open>
  The classes: \<open>class CannotMerge(Exception)\<close> and \<open>class SkipMerge(CannotMerge)\<close>.
  \<open>mro\<close> lists a class and its bases, \<open>issubclass\<close> and \<open>isinstance\<close> read it the
  way an \<open>except\<close> clause does.
\<close>

datatype exc_class =
    C_Exception
  | C_CannotMerge
  | C_SkipMerge
  | C_GitError
  | C_UnboundLocalError
  | C_AssertionError

fun class_of :: "exn \<Rightarrow> exc_class" where
  "class_of (CannotMerge _) = C_CannotMerge"
| "class_of (SkipMerge _) = C_SkipMerge"
| "class_of (GitError _) = C_GitError"
| "class_of (UnboundLocalError _) = C_UnboundLocalError"
| "class_of AssertionError = C_AssertionError"

fun mro :: "exc_class \<Rightarrow> exc_class list" where
  "mro C_Exception = [C_Exception]"
| "mro C_CannotMerge = [C_CannotMerge, C_Exception]"
| "mro C_SkipMerge = [C_SkipMerge, C_CannotMerge, C_Exception]"
| "mro C_GitError = [C_GitError, C_Exception]"
| "mro C_UnboundLocalError = [C_UnboundLocalError, C_Exception]"
| "mro C_AssertionError = [C_AssertionError, C_Exception]"

definition issubclass :: "exc_class \<Rightarrow> exc_class \<Rightarrow> bool" where
  "issubclass c d = (d \<in> set (mro c))"

definition isinstance :: "exn \<Rightarrow> exc_class \<Rightarrow> bool" where
  "isinstance e c = issubclass (class_of e) c"

text \<open>
  The \<open>reason\<close> property is defined in class \<open>CannotMerge\<close> (and inherited by
  \<open>SkipMerge\<close>): \<open>'Unknown reason!'\<close> when \<open>args\<close> is empty, \<open>args[0]\<close> otherwise.
  The other classes do not define it: \<open>None\<close>.
\<close>

fun args_reason :: "string list \<Rightarrow> string" where
  "args_reason [] = ''Unknown reason!''"
| "args_reason (a # _) = a"

fun reason :: "exn \<Rightarrow> string option" where
  "reason (CannotMerge args) = Some (args_reason args)"
| "reason (SkipMerge args) = Some (args_reason args)"
| "reason _ = None"

section \<open>Merge strategy and job options\<close>

datatype MergeStrategy = MS_merge | MS_rebase | MS_rebase_then_merge

text \<open>The \<open>value\<close> of an enum member (also its \<open>__str__\<close>).\<close>

fun strategy_value :: "MergeStrategy \<Rightarrow> string" where
  "strategy_value MS_merge = ''merge''"
| "strategy_value MS_rebase = ''rebase''"
| "strategy_value MS_rebase_then_merge = ''rebase_then_merge''"

section \<open>Configuration parsing (marge/app.py)\<close>

text \<open>
  The part of \<open>_parse_config\<close> after \<open>parser.parse_args(args)\<close>. The parsed namespace
  is a record of the fields the checks read (\<open>cfg_x\<close> for \<open>config.x\<close>); \<open>cli_args\<close> is the list of arguments the
  parser recorded as coming from the command line.
\<close>

record config =
  cfg_use_merge_strategy :: bool
  cfg_merge_strategy :: MergeStrategy
  cfg_batch :: bool
  cfg_add_tested :: bool

datatype cli_error = MargeBotCliArgError string

definition bad_args :: "string list" where
  "bad_args = [''--auth-token'', ''--ssh-key'']"

fun check_bad_args :: "string list \<Rightarrow> string list \<Rightarrow> cli_error option" where
  "check_bad_args [] cli_args = None"
| "check_bad_args (bad_arg # rest) cli_args =
     (if bad_arg \<in> set cli_args
      then Some (MargeBotCliArgError
             (''\"'' @ bad_arg @ ''\" can only be set via ENV var or config file.''))
      else check_bad_args rest cli_args)"

text \<open>
  \<open>strategy_checks\<close> is the block between \<open>parse_args\<close> and
  \<open>del config.use_merge_strategy\<close>: it overrides the strategy when
  \<open>--use-merge-strategy\<close> was given and raises on the two exclusions.
  \<open>parse_config_tail\<close> continues with the refusal of secrets on the command line.
  (The deleted attribute \<open>use_merge_strategy\<close> stays in the record; nothing reads it
  afterwards.)
\<close>

definition strategy_checks :: "config \<Rightarrow> cli_error + config" where
  "strategy_checks config0 =
     (let config1 = (if cfg_use_merge_strategy config0
                     then config0\<lparr>cfg_merge_strategy := MS_merge\<rparr> else config0)
      in if cfg_merge_strategy config1 = MS_merge
         then (if cfg_batch config1
               then Inl (MargeBotCliArgError
                 ''--merge-strategy=merge and --batch are currently mutually exclusive'')
               else if cfg_add_tested config1
               then Inl (MargeBotCliArgError
                 ''--merge-strategy=merge and --add-tested are currently mutually exclusive'')
               else Inr config1)
         else Inr config1)"

definition parse_config_tail :: "config \<Rightarrow> string list \<Rightarrow> cli_error + config" where
  "parse_config_tail config0 cli_args =
     (case strategy_checks config0 of
        Inl e \<Rightarrow> Inl e
      | Inr config1 \<Rightarrow>
          (case check_bad_args bad_args cli_args of
             Some e \<Rightarrow> Inl e
           | None \<Rightarrow> Inr config1))"

section \<open>Data model of the merge job (marge/job.py)\<close>

type_synonym sha = string

record user =
  user_id :: int
  username :: string
  name :: string
  email :: string

record project =
  project_id :: int
  only_allow_merge_if_pipeline_succeeds :: bool

record branch =
  protected :: bool

record pipeline =
  pipeline_sha :: sha
  status :: "string option"

record approvals =
  approver_ids :: "int list"
  approver_usernames :: "string list"
  approvals_left :: nat
  sufficient :: bool

record merge_request =
  iid :: int
  state :: string
  work_in_progress :: bool
  squash :: bool
  source_project_id :: int
  source_branch :: string
  target_branch :: string
  sha :: sha
  assignee_ids :: "int list"
  author_id :: int
  web_url :: string

text \<open>
  \<open>MergeJobOptions\<close>: durations (\<open>timedelta\<close>) and instants (\<open>datetime\<close>) are
  integers counting microseconds; the embargo is its \<open>covers\<close> predicate on instants.
\<close>

record MergeJobOptions =
  add_tested :: bool
  add_part_of :: bool
  add_reviewers :: bool
  reapprove :: bool
  approval_timeout :: int
  embargo :: "int \<Rightarrow> bool"
  ci_timeout :: int
  merge_strategy :: MergeStrategy
  require_ci_run_by_me :: bool
  ci_timeout_skip :: bool

definition requests_commit_tagging :: "MergeJobOptions \<Rightarrow> bool" where
  "requests_commit_tagging opts = (add_tested opts \<or> add_part_of opts \<or> add_reviewers opts)"

text \<open>The fields of a \<open>MergeJob\<close> that the methods read: \<open>_user\<close>, \<open>_project\<close>, \<open>_options\<close>.\<close>

record MergeJob =
  self_user :: user
  self_project :: project
  self_options :: MergeJobOptions

section \<open>The collaborators: Git working copy, forge, clock\<close>

text \<open>
  job.py calls a Git working copy (\<open>self._repo\<close>), the forge client and the clock.
  Their code is not part of job.py, so they are parameters of the model: \<open>env\<close> holds
  what each call answers in the run at hand. A Git call answers \<open>Inl msg\<close> when it
  raises \<open>GitError(msg)\<close>. Forge calls answer a value and take \<open>lag\<close> microseconds.
  \<open>pipelines_by_branch_res k\<close> is the answer to the \<open>k\<close>-th listing of pipelines.
\<close>

record env =
  remote_url :: string
  rebase_res :: "string + sha"
  merge_res :: "string + sha"
  get_commit_hash_res :: "string \<Rightarrow> string + sha"
  tag_with_trailer_res :: "string \<Rightarrow> string + sha"
  push_res :: "string + unit"
  checkout_branch_res :: "string + unit"
  remove_branch_res :: "string + unit"
  refetch_info_res :: "merge_request \<Rightarrow> merge_request"
  fetch_approvals_res :: approvals
  user_fetch_by_id_res :: "int \<Rightarrow> user"
  branch_fetch_by_name_res :: branch
  pipelines_by_branch_res :: "nat \<Rightarrow> pipeline list"
  lag :: nat

text \<open>Every call to a collaborator is recorded, with its arguments, in call order.\<close>

datatype call =
    Rebase string string "string option" bool
  | Merge string string "string option" bool
  | GetCommitHash string
  | TagWithTrailer string "string list" string string
  | Push string "string option" bool
  | CheckoutBranch string
  | RemoveBranch string
  | RefetchInfo
  | FetchApprovals
  | UserFetchById int
  | BranchFetchByName int string
  | PipelinesByBranch int string "string option"
  | PipelineStart int string
  | Sleep nat

text \<open>
  The state a run threads: the clock (microseconds), the calls made so far and the number
  of pipeline listings made so far.
\<close>

record world =
  now :: int
  trace :: "call list"
  polls :: nat

fun git_result :: "string + 'a \<Rightarrow> exn + 'a" where
  "git_result (Inl msg) = Inl (GitError msg)"
| "git_result (Inr v) = Inr v"

definition git_call :: "call \<Rightarrow> string + 'a \<Rightarrow> world \<Rightarrow> (exn + 'a) \<times> world" where
  "git_call c res w = (git_result res, w\<lparr>trace := trace w @ [c]\<rparr>)"

definition forge_call :: "env \<Rightarrow> call \<Rightarrow> world \<Rightarrow> world" where
  "forge_call env c w = w\<lparr>now := now w + int (lag env), trace := trace w @ [c]\<rparr>"

text \<open>\<open>time.sleep(secs)\<close>.\<close>

definition sleep :: "nat \<Rightarrow> world \<Rightarrow> world" where
  "sleep secs w = w\<lparr>now := now w + int secs * 1000000, trace := trace w @ [Sleep secs]\<rparr>"

definition repo_rebase ::
  "env \<Rightarrow> string \<Rightarrow> string \<Rightarrow> string option \<Rightarrow> bool \<Rightarrow> world \<Rightarrow> (exn + sha) \<times> world" where
  "repo_rebase env source target source_repo_url local w =
     git_call (Rebase source target source_repo_url local) (rebase_res env) w"

definition repo_merge ::
  "env \<Rightarrow> string \<Rightarrow> string \<Rightarrow> string option \<Rightarrow> bool \<Rightarrow> world \<Rightarrow> (exn + sha) \<times> world" where
  "repo_merge env source target source_repo_url local w =
     git_call (Merge source target source_repo_url local) (merge_res env) w"

definition repo_get_commit_hash :: "env \<Rightarrow> string \<Rightarrow> world \<Rightarrow> (exn + sha) \<times> world" where
  "repo_get_commit_hash env ref w = git_call (GetCommitHash ref) (get_commit_hash_res env ref) w"

definition repo_tag_with_trailer ::
  "env \<Rightarrow> string \<Rightarrow> string list \<Rightarrow> string \<Rightarrow> string \<Rightarrow> world \<Rightarrow> (exn + sha) \<times> world" where
  "repo_tag_with_trailer env trailer_name trailer_values branch start_commit w =
     git_call (TagWithTrailer trailer_name trailer_values branch start_commit)
       (tag_with_trailer_res env trailer_name) w"

definition repo_push ::
  "env \<Rightarrow> string \<Rightarrow> string option \<Rightarrow> bool \<Rightarrow> world \<Rightarrow> (exn + unit) \<times> world" where
  "repo_push env branch source_repo_url force w =
     git_call (Push branch source_repo_url force) (push_res env) w"

definition repo_checkout_branch :: "env \<Rightarrow> string \<Rightarrow> world \<Rightarrow> (exn + unit) \<times> world" where
  "repo_checkout_branch env branch w = git_call (CheckoutBranch branch) (checkout_branch_res env) w"

definition repo_remove_branch :: "env \<Rightarrow> string \<Rightarrow> world \<Rightarrow> (exn + unit) \<times> world" where
  "repo_remove_branch env branch w = git_call (RemoveBranch branch) (remove_branch_res env) w"

section \<open>Fusing the source branch onto the target\<close>

text \<open>
  \<open>rebase_then_merge\<close>: the inner handler's bare \<open>raise\<close> re-raises the exception being
  handled there, which is the one the merge raised.
\<close>

definition rebase_then_merge ::
  "env \<Rightarrow> string \<Rightarrow> string \<Rightarrow> string option \<Rightarrow> bool \<Rightarrow> world \<Rightarrow> (exn + sha) \<times> world" where
  "rebase_then_merge env source target source_repo_url local w =
     (case repo_rebase env source target source_repo_url local w of
        (Inr s, w1) \<Rightarrow> (Inr s, w1)
      | (Inl rebase_error, w1) \<Rightarrow>
          if isinstance rebase_error C_GitError
          then (case repo_merge env source target source_repo_url local w1 of
                  (Inr s, w2) \<Rightarrow> (Inr s, w2)
                | (Inl merge_error, w2) \<Rightarrow> (Inl merge_error, w2))
          else (Inl rebase_error, w1))"

definition fuse ::
  "env \<Rightarrow> MergeJob \<Rightarrow> string \<Rightarrow> string \<Rightarrow> string option \<Rightarrow> bool \<Rightarrow> world
     \<Rightarrow> (exn + sha) \<times> world" where
  "fuse env job source target source_repo_url local w =
     (case merge_strategy (self_options job) of
        MS_merge \<Rightarrow> repo_merge env source target source_repo_url local w
      | MS_rebase \<Rightarrow> repo_rebase env source target source_repo_url local w
      | MS_rebase_then_merge \<Rightarrow> rebase_then_merge env source target source_repo_url local w)"

section \<open>Trailers\<close>

definition get_reviewer_names_and_emails ::
  "env \<Rightarrow> approvals \<Rightarrow> world \<Rightarrow> string list \<times> world" where
  "get_reviewer_names_and_emails env apprs w =
     (let uids = approver_ids apprs
      in (map (\<lambda>uid. name (user_fetch_by_id_res env uid) @ '' <''
                       @ email (user_fetch_by_id_res env uid) @ ''>'') uids,
          fold (\<lambda>uid. forge_call env (UserFetchById uid)) uids w))"

text \<open>
  The statement \<open>if cond: sha = self._repo.tag_with_trailer(...)\<close>: the new value of
  \<open>sha\<close>, or the \<open>GitError\<close> of the call.
\<close>

definition tag_step ::
  "env \<Rightarrow> bool \<Rightarrow> string \<Rightarrow> string list \<Rightarrow> string \<Rightarrow> string \<Rightarrow> sha option \<Rightarrow> world
     \<Rightarrow> (exn + sha option) \<times> world" where
  "tag_step env cond trailer_name trailer_values branch start_commit sha0 w =
     (if cond
      then (case repo_tag_with_trailer env trailer_name trailer_values branch start_commit w of
              (Inl e, w1) \<Rightarrow> (Inl e, w1)
            | (Inr s, w1) \<Rightarrow> (Inr (Some s), w1))
      else (Inr sha0, w))"

definition add_trailers ::
  "env \<Rightarrow> MergeJob \<Rightarrow> merge_request \<Rightarrow> world \<Rightarrow> (exn + sha option) \<times> world" where
  "add_trailers env job merge_request w0 =
     (let opts = self_options job;
          (reviewers, w1) =
             (if add_reviewers opts
              then (case get_reviewer_names_and_emails env (fetch_approvals_res env)
                           (forge_call env FetchApprovals w0) of
                      (rs, w) \<Rightarrow> (Some rs, w))
              else (None, w0));
          should_add_tested =
             (add_tested opts \<and> only_allow_merge_if_pipeline_succeeds (self_project job));
          tested_by =
             (if should_add_tested
              then Some [name (self_user job) @ '' <'' @ web_url merge_request @ ''>'']
              else None);
          part_of =
             (if add_part_of opts then Some (''<'' @ web_url merge_request @ ''>'') else None)
      in (case tag_step env (reviewers \<noteq> None) ''Reviewed-by''
                 (case reviewers of Some rs \<Rightarrow> rs | None \<Rightarrow> [])
                 (source_branch merge_request) (''origin/'' @ target_branch merge_request)
                 None w1 of
            (Inl e, w2) \<Rightarrow> (Inl e, w2)
          | (Inr sha1, w2) \<Rightarrow>
              (case tag_step env (tested_by \<noteq> None \<and> merge_strategy opts = MS_rebase)
                      ''Tested-by'' (case tested_by of Some vs \<Rightarrow> vs | None \<Rightarrow> [])
                      (source_branch merge_request) (source_branch merge_request @ ''^'')
                      sha1 w2 of
                 (Inl e, w3) \<Rightarrow> (Inl e, w3)
               | (Inr sha2, w3) \<Rightarrow>
                   tag_step env (part_of \<noteq> None) ''Part-of''
                     (case part_of of Some v \<Rightarrow> [v] | None \<Rightarrow> [])
                     (source_branch merge_request)
                     (''origin/'' @ target_branch merge_request)
                     sha2 w3)))"

section \<open>Update, rewrite and push\<close>

text \<open>Python's \<open>x or y\<close> on an optional string: \<open>None\<close> and the empty string are false.\<close>

fun py_or :: "string option \<Rightarrow> string \<Rightarrow> string" where
  "py_or None y = y"
| "py_or (Some x) y = (if x = [] then y else x)"

text \<open>
  \<open>str(exc)\<close> of the exception the handler caught. Only a \<open>GitError\<close> reaches the
  handler; the printed form of the other exceptions is not modelled.
\<close>

fun str_exn :: "exn \<Rightarrow> string" where
  "str_exn (GitError msg) = msg"
| "str_exn _ = []"

text \<open>
  The local variables of \<open>update_from_target_branch_and_push\<close> that the handler reads;
  \<open>None\<close> is a variable not yet assigned.
\<close>

record locals =
  branch_updated :: bool
  branch_rewritten :: bool
  changes_pushed :: bool
  updated_sha :: "sha option"
  target_sha :: "sha option"
  rewritten_sha :: "sha option"

text \<open>The body of the \<open>try\<close>: what it raises or returns, and the locals at that point.\<close>

definition try_body ::
  "env \<Rightarrow> MergeJob \<Rightarrow> merge_request \<Rightarrow> string option \<Rightarrow> world
     \<Rightarrow> (exn + sha \<times> sha \<times> sha) \<times> locals \<times> world" where
  "try_body env job merge_request source_repo_url w0 =
     (let l0 = \<lparr>branch_updated = False, branch_rewritten = False, changes_pushed = False,
                 updated_sha = None, target_sha = None, rewritten_sha = None\<rparr>
      in (case fuse env job (source_branch merge_request) (target_branch merge_request)
                 source_repo_url False w0 of
            (Inl e, w1) \<Rightarrow> (Inl e, l0, w1)
          | (Inr updated, w1) \<Rightarrow>
              (let l1 = l0\<lparr>updated_sha := Some updated, branch_updated := True\<rparr>
               in (case repo_get_commit_hash env
                          (''origin/'' @ target_branch merge_request) w1 of
                     (Inl e, w2) \<Rightarrow> (Inl e, l1, w2)
                   | (Inr target, w2) \<Rightarrow>
                       (let l2 = l1\<lparr>target_sha := Some target\<rparr>
                        in if updated = target
                           then (Inl (CannotMerge [''these changes already exist in branch `''
                                         @ target_branch merge_request @ ''`'']), l2, w2)
                           else (case add_trailers env job merge_request w2 of
                                   (Inl e, w3) \<Rightarrow> (Inl e, l2, w3)
                                 | (Inr trailer_sha, w3) \<Rightarrow>
                                     (let rewritten = py_or trailer_sha updated;
                                          l3 = l2\<lparr>rewritten_sha := Some rewritten,
                                                  branch_rewritten := (rewritten \<noteq> updated)\<rparr>
                                      in (case repo_push env (source_branch merge_request)
                                                 source_repo_url True w3 of
                                            (Inl e, w4) \<Rightarrow> (Inl e, l3, w4)
                                          | (Inr _, w4) \<Rightarrow>
                                              (Inr (target, updated, rewritten),
                                               l3\<lparr>changes_pushed := True\<rparr>, w4)))))))))"

text \<open>
  The handler \<open>except git.GitError as exc\<close>: the exception it raises. Formatting the
  second message reads \<open>rewritten_sha\<close>, which is unassigned when the error came before
  the trailers were done. The forge is asked about the branch only when
  \<open>branch_rewritten\<close> holds (\<open>and\<close> short-circuits).
\<close>

definition handle_git_error ::
  "env \<Rightarrow> MergeJob \<Rightarrow> merge_request \<Rightarrow> locals \<Rightarrow> exn \<Rightarrow> world \<Rightarrow> exn \<times> world" where
  "handle_git_error env job merge_request l exc w =
     (if \<not> branch_updated l
      then (CannotMerge [''got conflicts while rebasing, your problem now...''], w)
      else if \<not> branch_rewritten l
      then (case rewritten_sha l of
              None \<Rightarrow> (UnboundLocalError ''rewritten_sha'', w)
            | Some rewritten \<Rightarrow>
                (case updated_sha l of
                   None \<Rightarrow> (UnboundLocalError ''updated_sha'', w)
                 | Some updated \<Rightarrow>
                     (CannotMerge
                        [''expected commit id to change on merge, but we have rewritten=''
                         @ rewritten @ '' updated='' @ updated
                         @ ''. Or it could be the GitError: '' @ str_exn exc], w)))
      else if \<not> changes_pushed l
      then (if branch_rewritten l
            then (let w1 = forge_call env
                             (BranchFetchByName (source_project_id merge_request)
                                (source_branch merge_request)) w
                  in if protected (branch_fetch_by_name_res env)
                     then (CannotMerge
                             [''Sorry, I can't push rewritten changes to protected branches!''],
                           w1)
                     else (CannotMerge
                             [''failed to push with strategy ''
                              @ strategy_value (merge_strategy (self_options job))
                              @ '', check my logs!''], w1))
            else (CannotMerge
                    [''failed to push with strategy ''
                     @ strategy_value (merge_strategy (self_options job))
                     @ '', check my logs!''], w))
      else (exc, w))"

text \<open>The \<open>finally\<close> block: the \<open>GitError\<close> it raises, if any.\<close>

definition cleanup :: "env \<Rightarrow> string \<Rightarrow> world \<Rightarrow> exn option \<times> world" where
  "cleanup env branch w =
     (if branch \<noteq> ''master''
      then (case repo_checkout_branch env ''master'' w of
              (Inl e, w1) \<Rightarrow> (Some e, w1)
            | (Inr _, w1) \<Rightarrow>
                (case repo_remove_branch env branch w1 of
                   (Inl e, w2) \<Rightarrow> (Some e, w2)
                 | (Inr _, w2) \<Rightarrow> (None, w2)))
      else (None, w))"

text \<open>
  The two entry checks come before the \<open>try\<close>; an exception of the \<open>finally\<close> block
  replaces the pending outcome.
\<close>

definition update_from_target_branch_and_push ::
  "env \<Rightarrow> MergeJob \<Rightarrow> merge_request \<Rightarrow> string option \<Rightarrow> world
     \<Rightarrow> (exn + sha \<times> sha \<times> sha) \<times> world" where
  "update_from_target_branch_and_push env job merge_request source_repo_url w0 =
     (if source_repo_url = Some (remote_url env) then (Inl AssertionError, w0)
      else if source_repo_url = None \<and> source_branch merge_request = target_branch merge_request
      then (Inl (CannotMerge [''source and target branch seem to coincide!'']), w0)
      else (case try_body env job merge_request source_repo_url w0 of
              (outcome, l, w1) \<Rightarrow>
                (case (case outcome of
                         Inr shas \<Rightarrow> (Inr shas, w1)
                       | Inl exc \<Rightarrow>
                           if isinstance exc C_GitError
                           then (case handle_git_error env job merge_request l exc w1 of
                                   (e, w) \<Rightarrow> (Inl e, w))
                           else (Inl exc, w1)) of
                   (pending, w2) \<Rightarrow>
                     (case cleanup env (source_branch merge_request) w2 of
                        (Some e, w3) \<Rightarrow> (Inl e, w3)
                      | (None, w3) \<Rightarrow> (pending, w3)))))"

section \<open>Validation\<close>

text \<open>
  \<open>str\<close> of a natural number and of a list of strings, as \<open>str.format\<close> prints the
  fields of the approvals. The \<open>repr\<close> of a string is the string between single quotes
  (user names hold no quote, backslash or control character).
\<close>

fun str_nat :: "nat \<Rightarrow> string" where
  "str_nat n =
     (if n < 10 then [''0123456789'' ! n]
      else str_nat (n div 10) @ [''0123456789'' ! (n mod 10)])"

declare str_nat.simps [simp del]

fun join_comma :: "string list \<Rightarrow> string" where
  "join_comma [] = []"
| "join_comma [x] = x"
| "join_comma (x # y # ys) = x @ '', '' @ join_comma (y # ys)"

definition repr_str :: "string \<Rightarrow> string" where
  "repr_str x = [CHR 0x27] @ x @ [CHR 0x27]"

definition str_list :: "string list \<Rightarrow> string" where
  "str_list xs = ''['' @ join_comma (map repr_str xs) @ '']''"

definition during_merge_embargo :: "MergeJob \<Rightarrow> world \<Rightarrow> bool" where
  "during_merge_embargo job w = embargo (self_options job) (now w)"

text \<open>
  \<open>ensure_mergeable_mr\<close> returns nothing; the model returns the merge request as
  \<open>refetch_info\<close> left it.
\<close>

definition ensure_mergeable_mr ::
  "env \<Rightarrow> MergeJob \<Rightarrow> merge_request \<Rightarrow> world \<Rightarrow> (exn + merge_request) \<times> world" where
  "ensure_mergeable_mr env job merge_request0 w0 =
     (let merge_request = refetch_info_res env merge_request0;
          w1 = forge_call env RefetchInfo w0
      in if work_in_progress merge_request
         then (Inl (CannotMerge
                 [''Sorry, I can't merge requests marked as Work-In-Progress!'']), w1)
         else if squash merge_request \<and> requests_commit_tagging (self_options job)
         then (Inl (CannotMerge
                 [''Sorry, merging requests marked as auto-squash would ruin my commit tagging!'']),
               w1)
         else (let apprs = fetch_approvals_res env;
                   w2 = forge_call env FetchApprovals w1
               in if \<not> sufficient apprs
                  then (Inl (CannotMerge
                          [''Insufficient approvals (have: ''
                           @ str_list (approver_usernames apprs)
                           @ '' missing: '' @ str_nat (approvals_left apprs) @ '')'']), w2)
                  else if state merge_request \<notin> set [''opened'', ''reopened'', ''locked'']
                  then (if state merge_request \<in> set [''merged'', ''closed'']
                        then (Inl (SkipMerge
                                [''The merge request is already ''
                                 @ state merge_request @ ''!'']), w2)
                        else (Inl (CannotMerge
                                [''The merge request is in an unknown state: ''
                                 @ state merge_request]), w2))
                  else if during_merge_embargo job w2
                  then (Inl (SkipMerge [''Merge embargo!'']), w2)
                  else if user_id (self_user job) \<notin> set (assignee_ids merge_request)
                  then (Inl (SkipMerge [''It is not assigned to me anymore!'']), w2)
                  else (Inr merge_request, w2)))"

section \<open>Waiting for the CI\<close>

definition get_mr_ci_status ::
  "env \<Rightarrow> MergeJob \<Rightarrow> merge_request \<Rightarrow> sha option \<Rightarrow> bool \<Rightarrow> world
     \<Rightarrow> string option \<times> world" where
  "get_mr_ci_status env job merge_request commit_sha0 ci_run_by_me w =
     (let commit_sha = (case commit_sha0 of None \<Rightarrow> sha merge_request | Some c \<Rightarrow> c);
          pipelines = pipelines_by_branch_res env (polls w);
          w1 = (forge_call env
                  (PipelinesByBranch (source_project_id merge_request)
                     (source_branch merge_request)
                     (if ci_run_by_me then Some (username (self_user job)) else None))
                  w)\<lparr>polls := Suc (polls w)\<rparr>;
          current_pipeline = find (\<lambda>p. pipeline_sha p = commit_sha) pipelines
      in ((case current_pipeline of Some p \<Rightarrow> status p | None \<Rightarrow> None), w1))"

text \<open>
  What one round of the loop does after a status that does not end the wait: start a
  pipeline when none is listed and \<open>ci_run_by_me\<close> (the \<open>elif\<close> branch only logs a
  warning), then sleep 10 seconds.
\<close>

definition start_and_sleep ::
  "env \<Rightarrow> merge_request \<Rightarrow> bool \<Rightarrow> string option \<Rightarrow> world \<Rightarrow> world" where
  "start_and_sleep env merge_request ci_run_by_me ci_status w =
     sleep 10
       (if ci_status = None \<and> ci_run_by_me
        then forge_call env
               (PipelineStart (source_project_id merge_request) (source_branch merge_request)) w
        else w)"

function wait_for_ci_loop ::
  "env \<Rightarrow> MergeJob \<Rightarrow> merge_request \<Rightarrow> sha \<Rightarrow> bool \<Rightarrow> int \<Rightarrow> world \<Rightarrow> (exn + unit) \<times> world" where
  "wait_for_ci_loop env job merge_request commit_sha ci_run_by_me time_0 w =
     (if now w - time_0 < ci_timeout (self_options job)
      then (let r = get_mr_ci_status env job merge_request (Some commit_sha) ci_run_by_me w;
                ci_status = fst r
            in if ci_status = Some ''success'' then (Inr (), snd r)
               else if ci_status = Some ''skipped'' then (Inr (), snd r)
               else if ci_status = Some ''failed''
               then (Inl (CannotMerge [''CI failed!'']), snd r)
               else if ci_status = Some ''canceled''
               then (Inl (CannotMerge [''Someone canceled the CI.'']), snd r)
               else wait_for_ci_loop env job merge_request commit_sha ci_run_by_me time_0
                      (start_and_sleep env merge_request ci_run_by_me ci_status (snd r)))
      else if ci_timeout_skip (self_options job)
      then (Inl (SkipMerge [''CI is taking too long.'']), w)
      else (Inl (CannotMerge [''CI is taking too long.'']), w))"
  by pat_completeness auto
termination
  by (relation "measure (\<lambda>(env, job, merge_request, commit_sha, ci_run_by_me, time_0, w).
                   nat (time_0 + ci_timeout (self_options job) - now w))")
     (auto simp: get_mr_ci_status_def start_and_sleep_def sleep_def forge_call_def Let_def)

declare wait_for_ci_loop.simps [simp del]

definition wait_for_ci_to_pass ::
  "env \<Rightarrow> MergeJob \<Rightarrow> merge_request \<Rightarrow> sha option \<Rightarrow> world \<Rightarrow> (exn + unit) \<times> world" where
  "wait_for_ci_to_pass env job merge_request commit_sha0 w =
     (let time_0 = now w;
          commit_sha = (case commit_sha0 of None \<Rightarrow> sha merge_request | Some c \<Rightarrow> c);
          ci_run_by_me = require_ci_run_by_me (self_options job)
      in wait_for_ci_loop env job merge_request commit_sha ci_run_by_me time_0 w)"

section \<open>Notions used to state the properties\<close>

text \<open>
  The rejection checks of validation in the order the specification lists them, each
  with the error it stands for, and the outcome of the first check that holds. The
  embargo is asked after the two forge calls of the validation.
\<close>

definition validate_spec_checks ::
  "env \<Rightarrow> MergeJob \<Rightarrow> merge_request \<Rightarrow> world \<Rightarrow> (bool \<times> exn) list" where
  "validate_spec_checks env job merge_request0 w =
     (let mr = refetch_info_res env merge_request0;
          apprs = fetch_approvals_res env
      in [(work_in_progress mr,
           CannotMerge [''Sorry, I can't merge requests marked as Work-In-Progress!'']),
          (squash mr \<and> requests_commit_tagging (self_options job),
           CannotMerge
             [''Sorry, merging requests marked as auto-squash would ruin my commit tagging!'']),
          (\<not> sufficient apprs,
           CannotMerge
             [''Insufficient approvals (have: '' @ str_list (approver_usernames apprs)
              @ '' missing: '' @ str_nat (approvals_left apprs) @ '')'']),
          (state mr \<in> set [''merged'', ''closed''],
           SkipMerge [''The merge request is already '' @ state mr @ ''!'']),
          (state mr \<notin> set [''opened'', ''reopened'', ''locked'', ''merged'', ''closed''],
           CannotMerge [''The merge request is in an unknown state: '' @ state mr]),
          (embargo (self_options job) (now w + int (lag env) + int (lag env)),
           SkipMerge [''Merge embargo!'']),
          (user_id (self_user job) \<notin> set (assignee_ids mr),
           SkipMerge [''It is not assigned to me anymore!''])])"

fun first_match :: "(bool \<times> exn) list \<Rightarrow> exn option" where
  "first_match [] = None"
| "first_match ((holds, e) # rest) = (if holds then Some e else first_match rest)"

text \<open>
  The trailers that apply to a job, in the order Reviewed-by, Tested-by, Part-of, and
  the trailer names of the \<open>tag_with_trailer\<close> calls of a trace, in call order.
\<close>

definition applicable_trailers :: "MergeJob \<Rightarrow> string list" where
  "applicable_trailers job =
     (if add_reviewers (self_options job) then [''Reviewed-by''] else [])
     @ (if add_tested (self_options job)
           \<and> only_allow_merge_if_pipeline_succeeds (self_project job)
           \<and> merge_strategy (self_options job) = MS_rebase
        then [''Tested-by''] else [])
     @ (if add_part_of (self_options job) then [''Part-of''] else [])"

fun trailer_of :: "call \<Rightarrow> string list" where
  "trailer_of (TagWithTrailer trailer_name _ _ _) = [trailer_name]"
| "trailer_of _ = []"

definition tag_names :: "call list \<Rightarrow> string list" where
  "tag_names tr = concat (map trailer_of tr)"

text \<open>The pushes among the calls of a trace.\<close>

fun is_push :: "call \<Rightarrow> bool" where
  "is_push (Push _ _ _) = True"
| "is_push _ = False"

text \<open>
  The pipeline starts among the calls of a trace, and the status that the \<open>k\<close>-th
  listing of pipelines shows for a commit (\<open>None\<close>: no pipeline listed for it).
\<close>

fun is_start :: "call \<Rightarrow> bool" where
  "is_start (PipelineStart _ _) = True"
| "is_start _ = False"

definition ci_status_at :: "env \<Rightarrow> sha \<Rightarrow> nat \<Rightarrow> string option" where
  "ci_status_at env commit_sha k =
     (case find (\<lambda>p. pipeline_sha p = commit_sha) (pipelines_by_branch_res env k) of
        Some p \<Rightarrow> status p
      | None \<Rightarrow> None)"

text \<open>The statuses that end the wait.\<close>

definition ends_wait :: "string option \<Rightarrow> bool" where
  "ends_wait ci_status =
     (ci_status = Some ''success'' \<or> ci_status = Some ''skipped''
      \<or> ci_status = Some ''failed'' \<or> ci_status = Some ''canceled'')"

text \<open>
  The calls of one round of the wait that does not end it: the listing of pipelines,
  the start of a pipeline when none is listed and \<open>ci_run_by_me\<close>, the sleep of 10
  seconds.
\<close>

definition poll_round ::
  "env \<Rightarrow> MergeJob \<Rightarrow> merge_request \<Rightarrow> sha \<Rightarrow> bool \<Rightarrow> nat \<Rightarrow> call list" where
  "poll_round env job merge_request commit_sha ci_run_by_me k =
     [PipelinesByBranch (source_project_id merge_request) (source_branch merge_request)
        (if ci_run_by_me then Some (username (self_user job)) else None)]
     @ (if ci_status_at env commit_sha k = None \<and> ci_run_by_me
        then [PipelineStart (source_project_id merge_request) (source_branch merge_request)]
        else [])
     @ [Sleep 10]"

text \<open>
  The time such a round takes (the latency of the listing, the latency of the start when
  a pipeline is started, the sleep of 10 seconds), in microseconds, and the time that the
  first \<open>j\<close> rounds of a wait take when its first listing is the \<open>p\<close>-th.
\<close>

definition round_time :: "env \<Rightarrow> sha \<Rightarrow> bool \<Rightarrow> nat \<Rightarrow> int" where
  "round_time env commit_sha ci_run_by_me k =
     int (lag env)
     + (if ci_status_at env commit_sha k = None \<and> ci_run_by_me then int (lag env) else 0)
     + 10000000"

definition elapsed :: "env \<Rightarrow> sha \<Rightarrow> bool \<Rightarrow> nat \<Rightarrow> nat \<Rightarrow> int" where
  "elapsed env commit_sha ci_run_by_me p j =
     sum_list (map (round_time env commit_sha ci_run_by_me) [p ..< p + j])"

section \<open>Example inputs\<close>

text \<open>
  A run in which every collaborator succeeds, and the job, merge request and initial
  state used by the examples below.
\<close>

definition env_ok :: env where
  "env_ok =
     \<lparr>remote_url = ''git@forge:group/project.git'',
      rebase_res = Inr ''c0ffee'',
      merge_res = Inr ''c0ffee'',
      get_commit_hash_res = (\<lambda>_. Inr ''ba5e''),
      tag_with_trailer_res = (\<lambda>t. Inr (''5ha-'' @ t)),
      push_res = Inr (),
      checkout_branch_res = Inr (),
      remove_branch_res = Inr (),
      refetch_info_res = (\<lambda>mr. mr),
      fetch_approvals_res =
        \<lparr>approver_ids = [7], approver_usernames = [''ann''], approvals_left = 0,
         sufficient = True\<rparr>,
      user_fetch_by_id_res =
        (\<lambda>uid. \<lparr>user_id = uid, username = ''ann'', name = ''Ann'',
                 email = ''ann@example.com''\<rparr>),
      branch_fetch_by_name_res = \<lparr>protected = False\<rparr>,
      pipelines_by_branch_res = (\<lambda>_. []),
      lag = 0\<rparr>"

definition w_init :: world where
  "w_init = \<lparr>now = 0, trace = [], polls = 0\<rparr>"

definition opts_plain :: MergeJobOptions where
  "opts_plain =
     \<lparr>add_tested = False, add_part_of = False, add_reviewers = False, reapprove = False,
      approval_timeout = 0, embargo = (\<lambda>_. False), ci_timeout = 900000000,
      merge_strategy = MS_rebase, require_ci_run_by_me = False, ci_timeout_skip = False\<rparr>"

definition job_of :: "MergeJobOptions \<Rightarrow> MergeJob" where
  "job_of opts =
     \<lparr>self_user = \<lparr>user_id = 1, username = ''marge'', name = ''Marge Bot'',
                    email = ''marge@example.com''\<rparr>,
      self_project = \<lparr>project_id = 10, only_allow_merge_if_pipeline_succeeds = True\<rparr>,
      self_options = opts\<rparr>"

definition mr_ex :: merge_request where
  "mr_ex =
     \<lparr>iid = 42, state = ''opened'', work_in_progress = False, squash = False,
      source_project_id = 10, source_branch = ''feature'', target_branch = ''main'',
      sha = ''abc'', assignee_ids = [1], author_id = 7,
      web_url = ''https://forge/group/project/merge_requests/42''\<rparr>"

definition env_both_fail :: env where
  "env_both_fail =
     env_ok\<lparr>rebase_res := Inl ''rebase conflict'', merge_res := Inl ''merge conflict''\<rparr>"

definition opts_embargo :: MergeJobOptions where
  "opts_embargo = opts_plain\<lparr>embargo := (\<lambda>_. True)\<rparr>"

definition opts_all_trailers :: MergeJobOptions where
  "opts_all_trailers =
     opts_plain\<lparr>add_tested := True, add_part_of := True, add_reviewers := True\<rparr>"

lemmas run_defs =
  update_from_target_branch_and_push_def try_body_def handle_git_error_def cleanup_def
  fuse_def rebase_then_merge_def add_trailers_def tag_step_def
  get_reviewer_names_and_emails_def repo_rebase_def repo_merge_def
  repo_get_commit_hash_def repo_tag_with_trailer_def repo_push_def
  repo_checkout_branch_def repo_remove_branch_def git_call_def forge_call_def
  isinstance_def issubclass_def Let_def

lemmas example_defs =
  env_ok_def job_of_def opts_plain_def mr_ex_def w_init_def

definition env_push_fails :: env where
  "env_push_fails = env_ok\<lparr>push_res := Inl ''remote rejected''\<rparr>"

definition env_protected :: env where
  "env_protected = env_push_fails\<lparr>branch_fetch_by_name_res := \<lparr>protected = True\<rparr>\<rparr>"

definition env_same_sha :: env where
  "env_same_sha = env_ok\<lparr>rebase_res := Inr ''ba5e''\<rparr>"

definition env_checkout_fails :: env where
  "env_checkout_fails = env_ok\<lparr>checkout_branch_res := Inl ''checkout failed''\<rparr>"

definition env_same_sha_checkout_fails :: env where
  "env_same_sha_checkout_fails = env_same_sha\<lparr>checkout_branch_res := Inl ''checkout failed''\<rparr>"

definition mr_coincide :: merge_request where
  "mr_coincide = mr_ex\<lparr>source_branch := ''develop'', target_branch := ''develop''\<rparr>"

lemmas example_defs2 = env_push_fails_def env_protected_def env_same_sha_def
  env_checkout_fails_def env_same_sha_checkout_fails_def mr_coincide_def

definition opts_by_me :: MergeJobOptions where
  "opts_by_me = opts_plain\<lparr>require_ci_run_by_me := True\<rparr>"

definition opts_short_skip :: MergeJobOptions where
  "opts_short_skip = opts_plain\<lparr>ci_timeout := 25000000, ci_timeout_skip := True\<rparr>"

definition env_absent_twice :: env where
  "env_absent_twice =
     env_ok\<lparr>pipelines_by_branch_res :=
              (\<lambda>k. if k < 2 then []
                    else [\<lparr>pipeline_sha = ''abc'', status = Some ''success''\<rparr>])\<rparr>"

definition env_late :: env where
  "env_late =
     env_ok\<lparr>pipelines_by_branch_res :=
              (\<lambda>k. [\<lparr>pipeline_sha = ''abc'',
                      status = Some (if k < 3 then ''running'' else ''success'')\<rparr>])\<rparr>"

lemmas ci_defs =
  wait_for_ci_to_pass_def get_mr_ci_status_def start_and_sleep_def sleep_def forge_call_def
  Let_def

definition env_absent_once :: env where
  "env_absent_once =
     env_ok\<lparr>pipelines_by_branch_res :=
              (\<lambda>k. if k < 1 then []
                    else [\<lparr>pipeline_sha = ''abc'', status = Some ''success''\<rparr>])\<rparr>"

section \<open>Properties\<close>

subsection \<open>Exception classes\<close>

text \<open>
  C10. \<open>SkipMerge\<close> is a subclass of \<open>CannotMerge\<close>: every instance of \<open>SkipMerge\<close> is an
  instance of \<open>CannotMerge\<close>, so a handler for \<open>CannotMerge\<close> also catches a
  \<open>SkipMerge\<close>. For every instance of \<open>CannotMerge\<close> (of either class) the \<open>reason\<close>
  property is the first constructor argument when there is one, and
  \<open>'Unknown reason!'\<close> when the exception was constructed without arguments.
\<close>

theorem skip_merge_subclass_and_reason:
  "(isinstance e C_SkipMerge \<longrightarrow> isinstance e C_CannotMerge)
   \<and> isinstance (SkipMerge args0) C_CannotMerge
   \<and> (isinstance e C_CannotMerge \<longrightarrow>
        (\<exists>args. (e = CannotMerge args \<or> e = SkipMerge args)
           \<and> reason e = Some (case args of [] \<Rightarrow> ''Unknown reason!'' | a # _ \<Rightarrow> a)))"
  by (cases e) (auto simp: isinstance_def issubclass_def split: list.splits)

theorem skip_merge_subclass_and_reason_witness:
  "isinstance (SkipMerge [''Merge embargo!'']) C_SkipMerge
   \<and> isinstance (SkipMerge [''Merge embargo!'']) C_CannotMerge
   \<and> reason (SkipMerge [''Merge embargo!'']) = Some ''Merge embargo!''
   \<and> reason (SkipMerge []) = Some ''Unknown reason!''"
  using skip_merge_subclass_and_reason [of "SkipMerge [''Merge embargo!'']" "[]"]
  by (simp add: isinstance_def issubclass_def)

subsection \<open>Configuration\<close>

text \<open>
  C9. When the selected strategy is \<open>merge\<close> (by \<open>--merge-strategy=merge\<close> or by
  \<open>--use-merge-strategy\<close>) together with batch mode or with \<open>add_tested\<close>,
  \<open>_parse_config\<close> raises \<open>MargeBotCliArgError\<close> (the batch message first); for every
  other combination the strategy check passes and hands on the configuration with the
  selected strategy, so that only the later check of the command-line secrets can still
  reject it.
\<close>

theorem merge_strategy_exclusions:
  "(let selected = (if cfg_use_merge_strategy c then MS_merge else cfg_merge_strategy c);
        handed_on = (if cfg_use_merge_strategy c then c\<lparr>cfg_merge_strategy := MS_merge\<rparr> else c);
        batch_msg = ''--merge-strategy=merge and --batch are currently mutually exclusive'';
        tested_msg = ''--merge-strategy=merge and --add-tested are currently mutually exclusive''
    in (selected = MS_merge \<and> cfg_batch c \<longrightarrow>
          strategy_checks c = Inl (MargeBotCliArgError batch_msg)
          \<and> parse_config_tail c cli_args = Inl (MargeBotCliArgError batch_msg))
     \<and> (selected = MS_merge \<and> \<not> cfg_batch c \<and> cfg_add_tested c \<longrightarrow>
          strategy_checks c = Inl (MargeBotCliArgError tested_msg)
          \<and> parse_config_tail c cli_args = Inl (MargeBotCliArgError tested_msg))
     \<and> (\<not> (selected = MS_merge \<and> (cfg_batch c \<or> cfg_add_tested c)) \<longrightarrow>
          cfg_merge_strategy handed_on = selected
          \<and> strategy_checks c = Inr handed_on
          \<and> parse_config_tail c cli_args =
              (case check_bad_args bad_args cli_args of
                 Some e \<Rightarrow> Inl e
               | None \<Rightarrow> Inr handed_on)))"
  by (auto simp: strategy_checks_def parse_config_tail_def Let_def)

theorem merge_strategy_exclusions_witness:
  "parse_config_tail
     \<lparr>cfg_use_merge_strategy = False, cfg_merge_strategy = MS_merge, cfg_batch = True,
      cfg_add_tested = False\<rparr> []
     = Inl (MargeBotCliArgError
         ''--merge-strategy=merge and --batch are currently mutually exclusive'')
   \<and> parse_config_tail
     \<lparr>cfg_use_merge_strategy = True, cfg_merge_strategy = MS_rebase, cfg_batch = False,
      cfg_add_tested = True\<rparr> []
     = Inl (MargeBotCliArgError
         ''--merge-strategy=merge and --add-tested are currently mutually exclusive'')
   \<and> parse_config_tail
     \<lparr>cfg_use_merge_strategy = False, cfg_merge_strategy = MS_rebase, cfg_batch = True,
      cfg_add_tested = True\<rparr> []
     = Inr \<lparr>cfg_use_merge_strategy = False, cfg_merge_strategy = MS_rebase, cfg_batch = True,
            cfg_add_tested = True\<rparr>"
  using
    merge_strategy_exclusions [of "\<lparr>cfg_use_merge_strategy = False,
      cfg_merge_strategy = MS_merge, cfg_batch = True, cfg_add_tested = False\<rparr>" "[]"]
    merge_strategy_exclusions [of "\<lparr>cfg_use_merge_strategy = True,
      cfg_merge_strategy = MS_rebase, cfg_batch = False, cfg_add_tested = True\<rparr>" "[]"]
    merge_strategy_exclusions [of "\<lparr>cfg_use_merge_strategy = False,
      cfg_merge_strategy = MS_rebase, cfg_batch = True, cfg_add_tested = True\<rparr>" "[]"]
  by (simp add: bad_args_def Let_def)

subsection \<open>Rebase, then merge\<close>

text \<open>
  C1 (as stated, refuted). When the rebase and then the merge both raise a \<open>GitError\<close>,
  the error that reaches the caller is the merge's, not the rebase's.
\<close>

theorem rebase_then_merge_original_error_counterexample:
  "rebase_res env_both_fail = Inl ''rebase conflict''
   \<and> merge_res env_both_fail = Inl ''merge conflict''
   \<and> fst (rebase_then_merge env_both_fail ''feature'' ''main'' None False w_init)
       = Inl (GitError ''merge conflict'')
   \<and> fst (rebase_then_merge env_both_fail ''feature'' ''main'' None False w_init)
       \<noteq> Inl (GitError ''rebase conflict'')"
  by (simp add: rebase_then_merge_def repo_rebase_def repo_merge_def git_call_def
      env_both_fail_def env_ok_def w_init_def isinstance_def issubclass_def)

text \<open>
  C1 (amended). Whenever the rebase raises a \<open>GitError\<close>, \<open>rebase_then_merge\<close> attempts
  the merge with the same arguments and its outcome is the outcome of the merge: the
  merge's result when it succeeds, the merge's \<open>GitError\<close> when it fails. The rebase
  error is swallowed in both cases and never reaches the caller.
\<close>

theorem rebase_then_merge_surfaces_merge_outcome:
  assumes "rebase_res env = Inl rebase_msg"
  shows "rebase_then_merge env source target url local w =
           ((case merge_res env of Inl merge_msg \<Rightarrow> Inl (GitError merge_msg) | Inr s \<Rightarrow> Inr s),
            w\<lparr>trace := trace w @ [Rebase source target url local,
                                   Merge source target url local]\<rparr>)"
  using assms
  by (simp add: rebase_then_merge_def repo_rebase_def repo_merge_def git_call_def
      isinstance_def issubclass_def split: sum.splits)

theorem rebase_then_merge_surfaces_merge_outcome_witness:
  "rebase_res env_both_fail = Inl ''rebase conflict''
   \<and> rebase_then_merge env_both_fail ''feature'' ''main'' None False w_init =
       (Inl (GitError ''merge conflict''),
        \<lparr>now = 0,
         trace = [Rebase ''feature'' ''main'' None False, Merge ''feature'' ''main'' None False],
         polls = 0\<rparr>)"
proof -
  have h: "rebase_res env_both_fail = Inl ''rebase conflict''"
    by (simp add: env_both_fail_def env_ok_def)
  show ?thesis
    using h rebase_then_merge_surfaces_merge_outcome [OF h, of "''feature''" "''main''" None False w_init]
    by (simp add: env_both_fail_def env_ok_def w_init_def)
qed

subsection \<open>Validation\<close>

text \<open>
  C5. The outcome of \<open>ensure_mergeable_mr\<close> is the error of the first check that
  holds, in the order work in progress, squash with commit tagging, insufficient
  approvals, state merged or closed (\<open>SkipMerge\<close>), unknown state (\<open>CannotMerge\<close>),
  embargo, not assigned; it passes when no check holds. So a work-in-progress merge
  request during an embargo is refused for being work in progress.
\<close>

theorem ensure_mergeable_mr_first_check_wins:
  "fst (ensure_mergeable_mr env job merge_request0 w) =
     (case first_match (validate_spec_checks env job merge_request0 w) of
        Some e \<Rightarrow> Inl e
      | None \<Rightarrow> Inr (refetch_info_res env merge_request0))"
  by (simp add: ensure_mergeable_mr_def validate_spec_checks_def Let_def forge_call_def
      during_merge_embargo_def)

theorem ensure_mergeable_mr_first_check_wins_witness:
  "embargo (self_options (job_of opts_embargo)) (now w_init)
   \<and> work_in_progress (mr_ex\<lparr>work_in_progress := True\<rparr>)
   \<and> fst (ensure_mergeable_mr env_ok (job_of opts_embargo)
             (mr_ex\<lparr>work_in_progress := True\<rparr>) w_init)
       = Inl (CannotMerge [''Sorry, I can't merge requests marked as Work-In-Progress!''])
   \<and> fst (ensure_mergeable_mr env_ok (job_of opts_embargo) mr_ex w_init)
       = Inl (SkipMerge [''Merge embargo!''])"
  using
    ensure_mergeable_mr_first_check_wins
      [of env_ok "job_of opts_embargo" "mr_ex\<lparr>work_in_progress := True\<rparr>" w_init]
    ensure_mergeable_mr_first_check_wins [of env_ok "job_of opts_embargo" mr_ex w_init]
  by (simp add: validate_spec_checks_def opts_embargo_def example_defs Let_def)

subsection \<open>Trailers\<close>

lemma tag_names_append [simp]: "tag_names (a @ b) = tag_names a @ tag_names b"
  by (simp add: tag_names_def)

lemma tag_names_Nil [simp]: "tag_names [] = []"
  by (simp add: tag_names_def)

lemma tag_names_Cons [simp]: "tag_names (c # tr) = trailer_of c @ tag_names tr"
  by (simp add: tag_names_def)

lemma trace_fold_users:
  "trace (fold (\<lambda>uid. forge_call env (UserFetchById uid)) uids w)
     = trace w @ map UserFetchById uids"
  by (induction uids arbitrary: w) (simp_all add: forge_call_def)

lemma tag_names_users [simp]: "tag_names (map UserFetchById uids) = []"
  by (induction uids) simp_all

lemma tag_step_eq:
  "tag_step env c n vs b s sha0 w =
     (if c then (case tag_with_trailer_res env n of
                   Inl m \<Rightarrow> Inl (GitError m)
                 | Inr x \<Rightarrow> Inr (Some x),
                 w\<lparr>trace := trace w @ [TagWithTrailer n vs b s]\<rparr>)
      else (Inr sha0, w))"
  by (simp add: tag_step_def repo_tag_with_trailer_def git_call_def split: sum.splits)

lemma add_trailers_ok:
  assumes "add_trailers env job mr w = (Inr v, w')"
  shows "tag_names (trace w') = tag_names (trace w) @ applicable_trailers job
     \<and> (applicable_trailers job = [] \<longrightarrow> v = None)
     \<and> (applicable_trailers job \<noteq> [] \<longrightarrow>
          (\<exists>s. tag_with_trailer_res env (last (applicable_trailers job)) = Inr s \<and> v = Some s))"
  using assms
  by (auto simp: add_trailers_def tag_step_eq applicable_trailers_def Let_def
        get_reviewer_names_and_emails_def trace_fold_users forge_call_def
      split: if_splits sum.splits prod.splits)

lemma try_body_ok:
  assumes "try_body env job mr url w = (Inr (t, u, r), l, w')"
  shows "\<exists>w2 w3 v. add_trailers env job mr w2 = (Inr v, w3) \<and> r = py_or v u"
  using assms
  by (auto simp: try_body_def Let_def split: prod.splits sum.splits if_splits)

lemma update_ok:
  assumes "update_from_target_branch_and_push env job mr url w = (Inr (t, u, r), w')"
  shows "\<exists>l w1. try_body env job mr url w = (Inr (t, u, r), l, w1)"
  using assms
  by (auto simp: update_from_target_branch_and_push_def
      split: prod.splits sum.splits if_splits option.splits)

text \<open>
  C4. In a run of \<open>add_trailers\<close> that returns, the trailers written are exactly those
  that apply, in the order Reviewed-by, Tested-by, Part-of, and the value returned is
  the SHA the last of them produced (\<open>None\<close> when none applies). In a run of
  \<open>update_from_target_branch_and_push\<close> that returns, the rewritten SHA is the updated
  SHA when no trailer applies, and the SHA produced by the last trailer applied
  otherwise (a SHA is not the empty string).
\<close>

theorem trailers_order_and_rewritten_sha:
  "(fst (add_trailers env job mr w) = Inr v \<longrightarrow>
      tag_names (trace (snd (add_trailers env job mr w)))
        = tag_names (trace w) @ applicable_trailers job
      \<and> (applicable_trailers job = [] \<longrightarrow> v = None)
      \<and> (applicable_trailers job \<noteq> [] \<longrightarrow>
           (\<exists>s. tag_with_trailer_res env (last (applicable_trailers job)) = Inr s
                \<and> v = Some s)))
   \<and> (fst (update_from_target_branch_and_push env job mr url w)
         = Inr (target, updated, rewritten) \<longrightarrow>
        (applicable_trailers job = [] \<longrightarrow> rewritten = updated)
        \<and> (applicable_trailers job \<noteq> [] \<longrightarrow>
             (\<exists>s. tag_with_trailer_res env (last (applicable_trailers job)) = Inr s
                  \<and> (s \<noteq> [] \<longrightarrow> rewritten = s))))"
proof (intro conjI impI)
  assume "fst (add_trailers env job mr w) = Inr v"
  then have "add_trailers env job mr w = (Inr v, snd (add_trailers env job mr w))"
    by (metis prod.collapse)
  from add_trailers_ok [OF this]
  show "tag_names (trace (snd (add_trailers env job mr w)))
        = tag_names (trace w) @ applicable_trailers job"
    and "applicable_trailers job = [] \<Longrightarrow> v = None"
    and "applicable_trailers job \<noteq> [] \<Longrightarrow>
           \<exists>s. tag_with_trailer_res env (last (applicable_trailers job)) = Inr s \<and> v = Some s"
    by blast+
next
  assume "fst (update_from_target_branch_and_push env job mr url w)
            = Inr (target, updated, rewritten)"
  then have "update_from_target_branch_and_push env job mr url w
      = (Inr (target, updated, rewritten),
         snd (update_from_target_branch_and_push env job mr url w))"
    by (metis prod.collapse)
  from update_ok [OF this] obtain l w1 where
    "try_body env job mr url w = (Inr (target, updated, rewritten), l, w1)" by blast
  from try_body_ok [OF this] obtain w2 w3 v' where
    t: "add_trailers env job mr w2 = (Inr v', w3)" and r: "rewritten = py_or v' updated"
    by blast
  note ok = add_trailers_ok [OF t]
  show "applicable_trailers job = [] \<Longrightarrow> rewritten = updated"
    using ok r by simp
  show "applicable_trailers job \<noteq> [] \<Longrightarrow>
     \<exists>s. tag_with_trailer_res env (last (applicable_trailers job)) = Inr s
          \<and> (s \<noteq> [] \<longrightarrow> rewritten = s)"
    using ok r by auto
qed

theorem trailers_order_and_rewritten_sha_witness:
  "applicable_trailers (job_of opts_all_trailers) = [''Reviewed-by'', ''Tested-by'', ''Part-of'']
   \<and> fst (add_trailers env_ok (job_of opts_all_trailers) mr_ex w_init)
       = Inr (Some ''5ha-Part-of'')
   \<and> tag_names (trace (snd (add_trailers env_ok (job_of opts_all_trailers) mr_ex w_init)))
       = [''Reviewed-by'', ''Tested-by'', ''Part-of'']
   \<and> fst (update_from_target_branch_and_push env_ok (job_of opts_all_trailers) mr_ex None
             w_init)
       = Inr (''ba5e'', ''c0ffee'', ''5ha-Part-of'')
   \<and> applicable_trailers (job_of opts_plain) = []
   \<and> fst (update_from_target_branch_and_push env_ok (job_of opts_plain) mr_ex None w_init)
       = Inr (''ba5e'', ''c0ffee'', ''c0ffee'')"
  using
    trailers_order_and_rewritten_sha
      [of env_ok "job_of opts_all_trailers" mr_ex w_init "Some ''5ha-Part-of''" None
          "''ba5e''" "''c0ffee''" "''5ha-Part-of''"]
    trailers_order_and_rewritten_sha
      [of env_ok "job_of opts_plain" mr_ex w_init None None
          "''ba5e''" "''c0ffee''" "''c0ffee''"]
  by (simp add: run_defs example_defs opts_all_trailers_def applicable_trailers_def)

subsection \<open>Update, rewrite and push\<close>

lemma cleanup_eq:
  "cleanup env b w =
     (if b = ''master'' then (None, w)
      else (case checkout_branch_res env of
              Inl m \<Rightarrow> (Some (GitError m), w\<lparr>trace := trace w @ [CheckoutBranch ''master'']\<rparr>)
            | Inr _ \<Rightarrow>
                (case remove_branch_res env of
                   Inl m \<Rightarrow> (Some (GitError m),
                              w\<lparr>trace := trace w @ [CheckoutBranch ''master'', RemoveBranch b]\<rparr>)
                 | Inr _ \<Rightarrow> (None,
                              w\<lparr>trace := trace w @ [CheckoutBranch ''master'', RemoveBranch b]\<rparr>))))"
  by (simp add: cleanup_def repo_checkout_branch_def repo_remove_branch_def git_call_def
      split: sum.splits)

lemma fuse_eq:
  "fuse env job s t u l w =
     (case merge_strategy (self_options job) of
        MS_merge \<Rightarrow> (git_result (merge_res env), w\<lparr>trace := trace w @ [Merge s t u l]\<rparr>)
      | MS_rebase \<Rightarrow> (git_result (rebase_res env), w\<lparr>trace := trace w @ [Rebase s t u l]\<rparr>)
      | MS_rebase_then_merge \<Rightarrow>
          (case rebase_res env of
             Inr x \<Rightarrow> (Inr x, w\<lparr>trace := trace w @ [Rebase s t u l]\<rparr>)
           | Inl _ \<Rightarrow> (git_result (merge_res env),
                       w\<lparr>trace := trace w @ [Rebase s t u l, Merge s t u l]\<rparr>)))"
  by (simp add: fuse_def rebase_then_merge_def repo_rebase_def repo_merge_def git_call_def
        isinstance_def issubclass_def
      split: MergeStrategy.splits sum.splits)

lemma fuse_calls:
  "\<exists>cs. trace (snd (fuse env job s t u l w)) = trace w @ cs \<and> tag_names cs = []
        \<and> filter is_push cs = []"
  by (auto simp: fuse_eq split: MergeStrategy.splits sum.splits)

lemma fuse_fst_indep:
  "fst (fuse env job s t u l w) = fst (fuse env job s t u l w')"
  by (auto simp: fuse_eq split: MergeStrategy.splits sum.splits)

lemma try_body_same:
  assumes "fst (fuse env job (source_branch mr) (target_branch mr) url False w) = Inr updated"
    and "get_commit_hash_res env (''origin/'' @ target_branch mr) = Inr updated"
  shows "\<exists>l w1. try_body env job mr url w =
           (Inl (CannotMerge [''these changes already exist in branch `''
                              @ target_branch mr @ ''`'']), l, w1)
         \<and> tag_names (trace w1) = tag_names (trace w)
         \<and> filter is_push (trace w1) = filter is_push (trace w)"
proof -
  obtain r w0 where f: "fuse env job (source_branch mr) (target_branch mr) url False w = (r, w0)"
    by (cases "fuse env job (source_branch mr) (target_branch mr) url False w")
  with assms(1) have r: "r = Inr updated" by simp
  from fuse_calls [of env job "source_branch mr" "target_branch mr" url False w] f
  obtain cs where cs: "trace w0 = trace w @ cs" "tag_names cs = []" "filter is_push cs = []"
    by auto
  show ?thesis
    using f r cs assms(2)
    by (simp add: try_body_def Let_def repo_get_commit_hash_def git_call_def)
qed

text \<open>
  C6 (as stated, refuted). The fuse succeeds and the updated SHA is the SHA of
  \<open>origin/main\<close>, but the checkout of \<open>master\<close> in the \<open>finally\<close> block fails: the
  \<open>GitError\<close> of the cleanup reaches the caller, not the \<open>CannotMerge\<close>.
\<close>

theorem already_in_target_cleanup_error_counterexample:
  "fst (fuse env_same_sha_checkout_fails (job_of opts_plain) (source_branch mr_ex)
          (target_branch mr_ex) None False w_init) = Inr ''ba5e''
   \<and> get_commit_hash_res env_same_sha_checkout_fails (''origin/'' @ target_branch mr_ex)
       = Inr ''ba5e''
   \<and> fst (update_from_target_branch_and_push env_same_sha_checkout_fails (job_of opts_plain)
             mr_ex None w_init) = Inl (GitError ''checkout failed'')
   \<and> fst (update_from_target_branch_and_push env_same_sha_checkout_fails (job_of opts_plain)
             mr_ex None w_init)
       \<noteq> Inl (CannotMerge [''these changes already exist in branch `main`''])"
  by (simp add: run_defs example_defs example_defs2)

text \<open>
  C6 (amended). When the run passes the entry checks, the fuse succeeds and the updated
  SHA equals the SHA of \<open>origin/<target>\<close>, no trailer is written and nothing is
  pushed, and the job raises \<open>CannotMerge\<close> with
  \<open>these changes already exist in branch `<target>`\<close>, unless the cleanup of the
  \<open>finally\<close> block raises, whose \<open>GitError\<close> then replaces it.
\<close>

theorem already_in_target_rejected_before_rewrite:
  assumes "url \<noteq> Some (remote_url env)"
    and "url \<noteq> None \<or> source_branch mr \<noteq> target_branch mr"
    and "fst (fuse env job (source_branch mr) (target_branch mr) url False w) = Inr updated"
    and "get_commit_hash_res env (''origin/'' @ target_branch mr) = Inr updated"
  shows "tag_names (trace (snd (update_from_target_branch_and_push env job mr url w)))
           = tag_names (trace w)
       \<and> filter is_push (trace (snd (update_from_target_branch_and_push env job mr url w)))
           = filter is_push (trace w)
       \<and> fst (update_from_target_branch_and_push env job mr url w)
           = (case fst (cleanup env (source_branch mr) w) of
                None \<Rightarrow> Inl (CannotMerge [''these changes already exist in branch `''
                                           @ target_branch mr @ ''`''])
              | Some e \<Rightarrow> Inl e)"
proof -
  from try_body_same [OF assms(3,4)] obtain l w1 where
    t: "try_body env job mr url w =
           (Inl (CannotMerge [''these changes already exist in branch `''
                              @ target_branch mr @ ''`'']), l, w1)"
    and n: "tag_names (trace w1) = tag_names (trace w)"
           "filter is_push (trace w1) = filter is_push (trace w)"
    by blast
  show ?thesis
    using assms(1,2) t n
    by (auto simp: update_from_target_branch_and_push_def cleanup_eq isinstance_def
          issubclass_def split: sum.splits)
qed


theorem already_in_target_rejected_before_rewrite_witness:
  "fst (fuse env_same_sha (job_of opts_all_trailers) (source_branch mr_ex)
          (target_branch mr_ex) None False w_init) = Inr ''ba5e''
   \<and> get_commit_hash_res env_same_sha (''origin/'' @ target_branch mr_ex) = Inr ''ba5e''
   \<and> fst (update_from_target_branch_and_push env_same_sha (job_of opts_all_trailers)
             mr_ex None w_init)
       = Inl (CannotMerge [''these changes already exist in branch `main`''])
   \<and> trace (snd (update_from_target_branch_and_push env_same_sha (job_of opts_all_trailers)
             mr_ex None w_init))
       = [Rebase ''feature'' ''main'' None False, GetCommitHash ''origin/main'',
          CheckoutBranch ''master'', RemoveBranch ''feature'']"
  using already_in_target_rejected_before_rewrite [of None env_same_sha mr_ex "job_of opts_all_trailers" w_init "''ba5e''"]
  by (simp add: run_defs example_defs example_defs2 opts_all_trailers_def)

lemma add_trailers_fst_indep:
  "fst (add_trailers env job mr w) = fst (add_trailers env job mr w')"
  by (simp add: add_trailers_def tag_step_eq Let_def get_reviewer_names_and_emails_def
      split: prod.splits sum.splits)

lemma try_body_push_fails:
  assumes "fst (fuse env job (source_branch mr) (target_branch mr) url False w) = Inr updated"
    and "get_commit_hash_res env (''origin/'' @ target_branch mr) = Inr target"
    and "updated \<noteq> target"
    and "fst (add_trailers env job mr w) = Inr v"
    and "push_res env = Inl msg"
  shows "\<exists>w1. try_body env job mr url w =
           (Inl (GitError msg),
            \<lparr>branch_updated = True, branch_rewritten = (py_or v updated \<noteq> updated),
             changes_pushed = False, updated_sha = Some updated, target_sha = Some target,
             rewritten_sha = Some (py_or v updated)\<rparr>, w1)"
proof -
  obtain r w0 where f: "fuse env job (source_branch mr) (target_branch mr) url False w = (r, w0)"
    by (cases "fuse env job (source_branch mr) (target_branch mr) url False w")
  with assms(1) have r: "r = Inr updated" by simp
  obtain w2 where g: "repo_get_commit_hash env (''origin/'' @ target_branch mr) w0
                        = (Inr target, w2)"
    using assms(2) by (simp add: repo_get_commit_hash_def git_call_def)
  obtain a w3 where t: "add_trailers env job mr w2 = (a, w3)"
    by (cases "add_trailers env job mr w2")
  have a: "a = Inr v"
    using t assms(4) add_trailers_fst_indep [of env job mr w2 w] by simp
  show ?thesis
    using f r g t a assms(3,5)
    by (simp add: try_body_def Let_def repo_push_def git_call_def)
qed

text \<open>
  C2 (as stated, refuted). The fuse succeeds, \<open>add_trailers\<close> returns (no trailer is
  configured) and the push raises a \<open>GitError\<close>: the error is neither of the two the
  claim names, on an unprotected and on a protected source branch alike.
\<close>

theorem push_failure_unrewritten_counterexample:
  "fst (fuse env_push_fails (job_of opts_plain) (source_branch mr_ex) (target_branch mr_ex)
          None False w_init) = Inr ''c0ffee''
   \<and> fst (add_trailers env_push_fails (job_of opts_plain) mr_ex w_init) = Inr None
   \<and> push_res env_push_fails = Inl ''remote rejected''
   \<and> \<not> protected (branch_fetch_by_name_res env_push_fails)
   \<and> fst (update_from_target_branch_and_push env_push_fails (job_of opts_plain) mr_ex None
             w_init)
       = Inl (CannotMerge
           [''expected commit id to change on merge, but we have rewritten=c0ffee updated=c0ffee. Or it could be the GitError: remote rejected''])
   \<and> fst (update_from_target_branch_and_push env_push_fails (job_of opts_plain) mr_ex None
             w_init)
       \<noteq> Inl (CannotMerge [''failed to push with strategy rebase, check my logs!''])
   \<and> protected (branch_fetch_by_name_res env_protected)
   \<and> fst (update_from_target_branch_and_push env_protected (job_of opts_plain) mr_ex None
             w_init)
       \<noteq> Inl (CannotMerge [''Sorry, I can't push rewritten changes to protected branches!''])"
  by (simp add: run_defs example_defs example_defs2)

text \<open>
  C2 (amended). When the run passes the entry checks, the fuse and \<open>add_trailers\<close>
  succeed, the push raises a \<open>GitError\<close> and the cleanup does not raise, the job raises
  \<open>CannotMerge\<close> with: the message \<open>expected commit id to change on merge ...\<close> when
  the rewritten SHA equals the updated SHA; otherwise
  \<open>Sorry, I can't push rewritten changes to protected branches!\<close> when the source branch
  is protected, and \<open>failed to push with strategy <s>, check my logs!\<close> when it is not.
  (The outcomes of the fuse and of \<open>add_trailers\<close> do not depend on the calls made
  before, so both are stated at the initial state.)
\<close>

theorem push_failure_classification:
  assumes "url \<noteq> Some (remote_url env)"
    and "url \<noteq> None \<or> source_branch mr \<noteq> target_branch mr"
    and "fst (fuse env job (source_branch mr) (target_branch mr) url False w) = Inr updated"
    and "get_commit_hash_res env (''origin/'' @ target_branch mr) = Inr target"
    and "updated \<noteq> target"
    and "fst (add_trailers env job mr w) = Inr v"
    and "push_res env = Inl msg"
    and "fst (cleanup env (source_branch mr) w) = None"
  shows "fst (update_from_target_branch_and_push env job mr url w) =
           Inl (CannotMerge
             [if py_or v updated = updated
              then ''expected commit id to change on merge, but we have rewritten=''
                   @ updated @ '' updated='' @ updated
                   @ ''. Or it could be the GitError: '' @ msg
              else if protected (branch_fetch_by_name_res env)
              then ''Sorry, I can't push rewritten changes to protected branches!''
              else ''failed to push with strategy ''
                   @ strategy_value (merge_strategy (self_options job))
                   @ '', check my logs!''])"
proof -
  from try_body_push_fails [OF assms(3-7)] obtain w1 where
    t: "try_body env job mr url w =
           (Inl (GitError msg),
            \<lparr>branch_updated = True, branch_rewritten = (py_or v updated \<noteq> updated),
             changes_pushed = False, updated_sha = Some updated, target_sha = Some target,
             rewritten_sha = Some (py_or v updated)\<rparr>, w1)"
    by blast
  show ?thesis
    using assms(1,2,8) t
    by (auto simp: update_from_target_branch_and_push_def cleanup_eq handle_git_error_def
          isinstance_def issubclass_def forge_call_def Let_def split: sum.splits if_splits)
qed


theorem push_failure_classification_witness:
  "push_res env_push_fails = Inl ''remote rejected''
   \<and> fst (add_trailers env_push_fails (job_of opts_all_trailers) mr_ex w_init)
       = Inr (Some ''5ha-Part-of'')
   \<and> fst (update_from_target_branch_and_push env_push_fails (job_of opts_all_trailers) mr_ex
             None w_init)
       = Inl (CannotMerge [''failed to push with strategy rebase, check my logs!''])
   \<and> fst (update_from_target_branch_and_push env_protected (job_of opts_all_trailers) mr_ex
             None w_init)
       = Inl (CannotMerge [''Sorry, I can't push rewritten changes to protected branches!''])"
  using
    push_failure_classification [of None env_push_fails mr_ex "job_of opts_all_trailers" w_init "''c0ffee''" "''ba5e''"
          "Some ''5ha-Part-of''" "''remote rejected''"]
    push_failure_classification [of None env_protected mr_ex "job_of opts_all_trailers" w_init "''c0ffee''" "''ba5e''"
          "Some ''5ha-Part-of''" "''remote rejected''"]
  by (simp add: run_defs example_defs example_defs2 opts_all_trailers_def)


text \<open>
  C8 (as stated, refuted). A run stopped by the entry check on coinciding branches
  raises \<open>CannotMerge\<close> without any call to the working copy, although the source
  branch is not \<open>master\<close>; and when the checkout of \<open>master\<close> fails, the source branch
  is never removed.
\<close>

theorem cleanup_on_every_outcome_counterexample:
  "source_branch mr_coincide \<noteq> ''master''
   \<and> fst (update_from_target_branch_and_push env_ok (job_of opts_plain) mr_coincide None w_init)
       = Inl (CannotMerge [''source and target branch seem to coincide!''])
   \<and> trace (snd (update_from_target_branch_and_push env_ok (job_of opts_plain) mr_coincide None
                    w_init)) = []
   \<and> source_branch mr_ex \<noteq> ''master''
   \<and> fst (update_from_target_branch_and_push env_checkout_fails (job_of opts_plain) mr_ex None
             w_init) = Inl (GitError ''checkout failed'')
   \<and> RemoveBranch (source_branch mr_ex)
       \<notin> set (trace (snd (update_from_target_branch_and_push env_checkout_fails
                             (job_of opts_plain) mr_ex None w_init)))"
  by (simp add: run_defs example_defs example_defs2)

text \<open>
  C8 (amended). A run stopped by an entry check makes no call at all. In every run that
  passes the entry checks with a source branch other than \<open>master\<close>, whatever the
  outcome, the last calls before the function returns or raises are the checkout of
  \<open>master\<close> and, when that succeeded, the removal of the source branch; a \<open>GitError\<close>
  of the checkout or of the removal replaces the outcome.
\<close>

theorem cleanup_after_try_block:
  "((url = Some (remote_url env) \<or> (url = None \<and> source_branch mr = target_branch mr)) \<longrightarrow>
      snd (update_from_target_branch_and_push env job mr url w) = w)
   \<and> (\<not> (url = Some (remote_url env) \<or> (url = None \<and> source_branch mr = target_branch mr))
        \<and> source_branch mr \<noteq> ''master'' \<longrightarrow>
       (\<exists>pre.
          (case checkout_branch_res env of
             Inl m \<Rightarrow>
               trace (snd (update_from_target_branch_and_push env job mr url w))
                 = pre @ [CheckoutBranch ''master'']
               \<and> fst (update_from_target_branch_and_push env job mr url w) = Inl (GitError m)
           | Inr _ \<Rightarrow>
               trace (snd (update_from_target_branch_and_push env job mr url w))
                 = pre @ [CheckoutBranch ''master'', RemoveBranch (source_branch mr)]
               \<and> (case remove_branch_res env of
                     Inl m \<Rightarrow> fst (update_from_target_branch_and_push env job mr url w)
                               = Inl (GitError m)
                   | Inr _ \<Rightarrow> True))))"
  by (auto simp: update_from_target_branch_and_push_def cleanup_eq
      split: prod.splits sum.splits option.splits)

theorem cleanup_after_try_block_witness:
  "source_branch mr_ex \<noteq> ''master''
   \<and> trace (snd (update_from_target_branch_and_push env_push_fails (job_of opts_plain) mr_ex None
                    w_init))
       = [Rebase ''feature'' ''main'' None False, GetCommitHash ''origin/main'',
          Push ''feature'' None True, CheckoutBranch ''master'', RemoveBranch ''feature'']"
  using cleanup_after_try_block [of None env_push_fails mr_ex "job_of opts_plain" w_init]
  by (simp add: run_defs example_defs example_defs2)


subsection \<open>Waiting for the CI\<close>

lemma get_mr_ci_status_eq:
  "get_mr_ci_status env job mr (Some c) b w =
     (ci_status_at env c (polls w),
      w\<lparr>now := now w + int (lag env),
        trace := trace w @ [PipelinesByBranch (source_project_id mr) (source_branch mr)
                              (if b then Some (username (self_user job)) else None)],
        polls := Suc (polls w)\<rparr>)"
  by (simp add: get_mr_ci_status_def ci_status_at_def forge_call_def Let_def)

lemma start_and_sleep_eq:
  "start_and_sleep env mr b st w =
     w\<lparr>now := now w + (if st = None \<and> b then int (lag env) else 0) + 10000000,
       trace := trace w
          @ (if st = None \<and> b
             then [PipelineStart (source_project_id mr) (source_branch mr)] else [])
          @ [Sleep 10]\<rparr>"
  by (simp add: start_and_sleep_def sleep_def forge_call_def)

lemma loop_unfold:
  "wait_for_ci_loop env job mr c b t0 w =
     (if now w - t0 < ci_timeout (self_options job)
      then (if ends_wait (ci_status_at env c (polls w))
            then ((if ci_status_at env c (polls w) = Some ''success''
                      \<or> ci_status_at env c (polls w) = Some ''skipped'' then Inr ()
                   else if ci_status_at env c (polls w) = Some ''failed''
                   then Inl (CannotMerge [''CI failed!''])
                   else Inl (CannotMerge [''Someone canceled the CI.''])),
                  snd (get_mr_ci_status env job mr (Some c) b w))
            else wait_for_ci_loop env job mr c b t0
                   (start_and_sleep env mr b (ci_status_at env c (polls w))
                      (snd (get_mr_ci_status env job mr (Some c) b w))))
      else ((if ci_timeout_skip (self_options job)
             then Inl (SkipMerge [''CI is taking too long.''])
             else Inl (CannotMerge [''CI is taking too long.''])), w))"
  by (subst wait_for_ci_loop.simps) (simp add: get_mr_ci_status_eq ends_wait_def Let_def)

lemma loop_induct [case_names step]:
  assumes "\<And>w. (now w - t0 < ci_timeout (self_options job) \<Longrightarrow>
              \<not> ends_wait (ci_status_at env c (polls w)) \<Longrightarrow>
              P (start_and_sleep env mr b (ci_status_at env c (polls w))
                      (snd (get_mr_ci_status env job mr (Some c) b w)))) \<Longrightarrow> P w"
  shows "P w"
  using assms
proof (induction env job mr c b t0 w rule: wait_for_ci_loop.induct)
  case (1 env job mr c b t0 w)
  show ?case
  proof (rule 1(2))
    assume a: "now w - t0 < ci_timeout (self_options job)"
      and b: "\<not> ends_wait (ci_status_at env c (polls w))"
    show "P (start_and_sleep env mr b (ci_status_at env c (polls w))
                      (snd (get_mr_ci_status env job mr (Some c) b w)))"
      using a b 1(1) [OF a refl refl _ _ _ _ 1(2)]
      by (simp add: get_mr_ci_status_eq ends_wait_def)
  qed
qed

lemma polls_mono:
  "polls w \<le> polls (snd (wait_for_ci_loop env job mr c b t0 w))"
proof (induction w rule: loop_induct [where env=env and job=job and mr=mr and c=c and b=b and ?t0.0=t0])
  case (step w)
  show ?case
    apply (subst loop_unfold)
    using step
    apply (auto simp: get_mr_ci_status_eq start_and_sleep_eq)
    done
qed

lemma starts_count:
  "length (filter is_start (trace (snd (wait_for_ci_loop env job mr c b t0 w))))
     = length (filter is_start (trace w))
       + (if b then length (filter (\<lambda>k. ci_status_at env c k = None)
                              [polls w ..< polls (snd (wait_for_ci_loop env job mr c b t0 w))])
          else 0)"
proof (induction w rule: loop_induct [where env=env and job=job and mr=mr and c=c and b=b and ?t0.0=t0])
  case (step w)
  define w1 where "w1 = start_and_sleep env mr b (ci_status_at env c (polls w))
                      (snd (get_mr_ci_status env job mr (Some c) b w))"
  define W where "W = snd (wait_for_ci_loop env job mr c b t0 w1)"
  have p: "polls w1 = Suc (polls w)"
    by (simp add: w1_def get_mr_ci_status_eq start_and_sleep_eq)
  have s1: "length (filter is_start (trace w1))
      = length (filter is_start (trace w))
        + (if ci_status_at env c (polls w) = None \<and> b then 1 else 0)"
    by (simp add: w1_def get_mr_ci_status_eq start_and_sleep_eq)
  have m: "Suc (polls w) \<le> polls W"
    using polls_mono [of w1 env job mr c b t0] p by (simp add: W_def)
  show ?case
  proof (cases "now w - t0 < ci_timeout (self_options job)")
    case False
    then show ?thesis by (subst (1 2) loop_unfold) simp
  next
    case t: True
    show ?thesis
    proof (cases "ends_wait (ci_status_at env c (polls w))")
      case True
      then show ?thesis
        using t by (subst (1 2) loop_unfold) (auto simp: get_mr_ci_status_eq ends_wait_def)
    next
      case False
      have u: "snd (wait_for_ci_loop env job mr c b t0 w) = W"
        using t False by (subst loop_unfold) (simp add: W_def w1_def)
      have l: "[polls w ..< polls W] = polls w # [Suc (polls w) ..< polls W]"
        using m by (simp add: upt_conv_Cons)
      have ih: "length (filter is_start (trace W))
         = length (filter is_start (trace w1))
           + (if b then length (filter (\<lambda>k. ci_status_at env c k = None)
                              [polls w1 ..< polls W]) else 0)"
        using step [OF t False] by (simp add: W_def w1_def)
      show ?thesis
        unfolding u using ih s1 p l by simp
    qed
  qed
qed


text \<open>
  C3 (as stated, refuted). With \<open>require_ci_run_by_me\<close> set and no matching pipeline
  listed at the first two polls, one call of \<open>wait_for_ci_to_pass\<close> starts a pipeline
  twice.
\<close>

theorem pipeline_started_twice_counterexample:
  "require_ci_run_by_me (self_options (job_of opts_by_me))
   \<and> fst (wait_for_ci_to_pass env_absent_twice (job_of opts_by_me) mr_ex None w_init) = Inr ()
   \<and> length (filter is_start
        (trace (snd (wait_for_ci_to_pass env_absent_twice (job_of opts_by_me) mr_ex None w_init))))
      = 2"
  by (simp add: ci_defs wait_for_ci_loop.simps example_defs env_absent_twice_def opts_by_me_def)

text \<open>
  C3 (amended). During one call of \<open>wait_for_ci_to_pass\<close>, a pipeline is started once
  for every poll that lists no matching pipeline when \<open>require_ci_run_by_me\<close> is set,
  and never otherwise: the number of starts is the number of such polls.
\<close>

theorem pipeline_start_once_per_absent_poll:
  "length (filter is_start (trace (snd (wait_for_ci_to_pass env job mr commit_sha0 w))))
     = length (filter is_start (trace w))
       + (if require_ci_run_by_me (self_options job)
          then length (filter
                 (\<lambda>k. ci_status_at env (case commit_sha0 of None \<Rightarrow> sha mr | Some c \<Rightarrow> c) k
                        = None)
                 [polls w ..< polls (snd (wait_for_ci_to_pass env job mr commit_sha0 w))])
          else 0)"
  using starts_count [of env job mr "case commit_sha0 of None \<Rightarrow> sha mr | Some c \<Rightarrow> c"
          "require_ci_run_by_me (self_options job)" "now w" w]
  by (simp add: wait_for_ci_to_pass_def Let_def)

theorem pipeline_start_once_per_absent_poll_witness:
  "trace (snd (wait_for_ci_to_pass env_absent_once (job_of opts_by_me) mr_ex None w_init))
     = [PipelinesByBranch 10 ''feature'' (Some ''marge''), PipelineStart 10 ''feature'',
        Sleep 10, PipelinesByBranch 10 ''feature'' (Some ''marge'')]
   \<and> length (filter is_start
       (trace (snd (wait_for_ci_to_pass env_absent_once (job_of opts_by_me) mr_ex None w_init))))
      = 1"
  using pipeline_start_once_per_absent_poll [of env_absent_once "job_of opts_by_me" mr_ex None w_init]
  by (simp add: ci_defs wait_for_ci_loop.simps example_defs env_absent_once_def opts_by_me_def)


lemma elapsed_0 [simp]: "elapsed env c b p 0 = 0"
  by (simp add: elapsed_def)

lemma upt_shift: "[p ..< p + Suc j] = p # [Suc p ..< Suc p + j]"
  by (simp add: upt_conv_Cons del: upt_Suc)

lemma elapsed_Suc:
  "elapsed env c b p (Suc j) = round_time env c b p + elapsed env c b (Suc p) j"
  unfolding elapsed_def upt_shift by simp

lemma elapsed_lower: "int j * 10000000 \<le> elapsed env c b p j"
proof (induction j arbitrary: p)
  case 0
  show ?case by simp
next
  case (Suc j)
  have "10000000 \<le> round_time env c b p" by (simp add: round_time_def)
  with Suc [of "Suc p"] show ?case by (simp add: elapsed_Suc algebra_simps)
qed

lemma step_world:
  "start_and_sleep env mr b (ci_status_at env c (polls w))
      (snd (get_mr_ci_status env job mr (Some c) b w))
   = w\<lparr>now := now w + round_time env c b (polls w),
        trace := trace w @ poll_round env job mr c b (polls w),
        polls := Suc (polls w)\<rparr>"
  by (simp add: get_mr_ci_status_eq start_and_sleep_eq round_time_def poll_round_def)

lemma loop_timeout:
  assumes "\<forall>j. now w - t0 + elapsed env c b (polls w) j < ci_timeout (self_options job)
               \<longrightarrow> \<not> ends_wait (ci_status_at env c (polls w + j))"
  shows "\<exists>n. (\<forall>j<n. now w - t0 + elapsed env c b (polls w) j < ci_timeout (self_options job))
            \<and> ci_timeout (self_options job) \<le> now w - t0 + elapsed env c b (polls w) n
            \<and> wait_for_ci_loop env job mr c b t0 w
                = (Inl (if ci_timeout_skip (self_options job)
                        then SkipMerge [''CI is taking too long.'']
                        else CannotMerge [''CI is taking too long.'']),
                   w\<lparr>now := now w + elapsed env c b (polls w) n,
                     trace := trace w
                        @ concat (map (poll_round env job mr c b) [polls w ..< polls w + n]),
                     polls := polls w + n\<rparr>)"
  using assms
proof (induction w rule: loop_induct [where env=env and job=job and mr=mr and c=c and b=b and ?t0.0=t0])
  case (step w)
  define w1 where "w1 = w\<lparr>now := now w + round_time env c b (polls w),
        trace := trace w @ poll_round env job mr c b (polls w),
        polls := Suc (polls w)\<rparr>"
  let ?T = "ci_timeout (self_options job)"
  let ?err = "Inl (if ci_timeout_skip (self_options job)
                        then SkipMerge [''CI is taking too long.'']
                        else CannotMerge [''CI is taking too long.'']) :: exn + unit"
  show ?case
  proof (cases "now w - t0 < ?T")
    case False
    have "wait_for_ci_loop env job mr c b t0 w = (?err, w)"
      using False by (subst loop_unfold) simp
    then show ?thesis
      using False by (intro exI [of _ 0]) simp
  next
    case t: True
    have ne: "\<not> ends_wait (ci_status_at env c (polls w))"
      using step(2) t by (auto dest: spec [of _ 0])
    have u: "wait_for_ci_loop env job mr c b t0 w = wait_for_ci_loop env job mr c b t0 w1"
      using t ne by (subst loop_unfold) (simp add: step_world w1_def)
    have h1: "\<forall>j. now w1 - t0 + elapsed env c b (polls w1) j < ?T
                 \<longrightarrow> \<not> ends_wait (ci_status_at env c (polls w1 + j))"
    proof (intro allI impI)
      fix j
      assume "now w1 - t0 + elapsed env c b (polls w1) j < ?T"
      then have "now w - t0 + elapsed env c b (polls w) (Suc j) < ?T"
        by (simp add: w1_def elapsed_Suc)
      with step(2) have "\<not> ends_wait (ci_status_at env c (polls w + Suc j))" by blast
      then show "\<not> ends_wait (ci_status_at env c (polls w1 + j))" by (simp add: w1_def)
    qed
    from step(1) [OF t ne, unfolded step_world, folded w1_def, OF h1]
    obtain n where
      a: "\<forall>j<n. now w1 - t0 + elapsed env c b (polls w1) j < ?T"
      and b: "?T \<le> now w1 - t0 + elapsed env c b (polls w1) n"
      and r: "wait_for_ci_loop env job mr c b t0 w1
                = (?err,
                   w1\<lparr>now := now w1 + elapsed env c b (polls w1) n,
                     trace := trace w1
                        @ concat (map (poll_round env job mr c b) [polls w1 ..< polls w1 + n]),
                     polls := polls w1 + n\<rparr>)"
      by blast
    have a': "\<forall>j<Suc n. now w - t0 + elapsed env c b (polls w) j < ?T"
    proof (intro allI impI)
      fix j assume j: "j < Suc n"
      show "now w - t0 + elapsed env c b (polls w) j < ?T"
      proof (cases j)
        case 0
        then show ?thesis using t by simp
      next
        case (Suc i)
        then have "i < n" using j by simp
        with a have "now w1 - t0 + elapsed env c b (polls w1) i < ?T" by blast
        then show ?thesis by (simp add: Suc w1_def elapsed_Suc)
      qed
    qed
    have b': "?T \<le> now w - t0 + elapsed env c b (polls w) (Suc n)"
      using b by (simp add: w1_def elapsed_Suc)
    have r': "wait_for_ci_loop env job mr c b t0 w
                = (?err,
                   w\<lparr>now := now w + elapsed env c b (polls w) (Suc n),
                     trace := trace w
                        @ concat (map (poll_round env job mr c b) [polls w ..< polls w + Suc n]),
                     polls := polls w + Suc n\<rparr>)"
      unfolding u r upt_shift by (simp add: w1_def elapsed_Suc)
    show ?thesis
      using a' b' r' by blast
  qed
qed

text \<open>
  C7. Take a wait in which no status polled before \<open>ci_timeout\<close> has elapsed ends the
  wait (the \<open>j\<close>-th poll is made after the time of \<open>j\<close> rounds, and only while that
  time is below \<open>ci_timeout\<close>). Then \<open>wait_for_ci_to_pass\<close> makes a poll as long as
  the time elapsed is below \<open>ci_timeout\<close>, each poll being followed by a sleep of
  exactly 10 seconds (after the start of a pipeline when that applies), and it raises
  \<open>SkipMerge('CI is taking too long.')\<close> if \<open>ci_timeout_skip\<close> is set and
  \<open>CannotMerge('CI is taking too long.')\<close> otherwise, as soon as the time elapsed has
  reached \<open>ci_timeout\<close>. The statuses of polls that are never made are not constrained.
\<close>

theorem ci_timeout_after_polling_every_10s:
  assumes "\<forall>j. elapsed env (case commit_sha0 of None \<Rightarrow> sha mr | Some c \<Rightarrow> c)
                  (require_ci_run_by_me (self_options job)) (polls w) j
                < ci_timeout (self_options job)
               \<longrightarrow> \<not> ends_wait
                     (ci_status_at env (case commit_sha0 of None \<Rightarrow> sha mr | Some c \<Rightarrow> c)
                        (polls w + j))"
  shows "\<exists>n. (\<forall>j<n. elapsed env (case commit_sha0 of None \<Rightarrow> sha mr | Some c \<Rightarrow> c)
                       (require_ci_run_by_me (self_options job)) (polls w) j
                     < ci_timeout (self_options job))
            \<and> ci_timeout (self_options job)
                \<le> elapsed env (case commit_sha0 of None \<Rightarrow> sha mr | Some c \<Rightarrow> c)
                     (require_ci_run_by_me (self_options job)) (polls w) n
            \<and> wait_for_ci_to_pass env job mr commit_sha0 w
                = (Inl (if ci_timeout_skip (self_options job)
                        then SkipMerge [''CI is taking too long.'']
                        else CannotMerge [''CI is taking too long.'']),
                   w\<lparr>now := now w
                        + elapsed env (case commit_sha0 of None \<Rightarrow> sha mr | Some c \<Rightarrow> c)
                            (require_ci_run_by_me (self_options job)) (polls w) n,
                     trace := trace w
                        @ concat (map (poll_round env job mr
                                         (case commit_sha0 of None \<Rightarrow> sha mr | Some c \<Rightarrow> c)
                                         (require_ci_run_by_me (self_options job)))
                            [polls w ..< polls w + n]),
                     polls := polls w + n\<rparr>)"
  using loop_timeout [of w "now w" env "case commit_sha0 of None \<Rightarrow> sha mr | Some c \<Rightarrow> c"
          "require_ci_run_by_me (self_options job)" job mr] assms
  by (simp add: wait_for_ci_to_pass_def Let_def)

theorem ci_timeout_after_polling_every_10s_witness:
  "ci_status_at env_late ''abc'' 2 = Some ''running''
   \<and> ci_status_at env_late ''abc'' 3 = Some ''success''
   \<and> wait_for_ci_to_pass env_late (job_of opts_short_skip) mr_ex None w_init
       = (Inl (SkipMerge [''CI is taking too long.'']),
          \<lparr>now = 30000000,
           trace = [PipelinesByBranch 10 ''feature'' None, Sleep 10,
                    PipelinesByBranch 10 ''feature'' None, Sleep 10,
                    PipelinesByBranch 10 ''feature'' None, Sleep 10],
           polls = 3\<rparr>)
   \<and> fst (wait_for_ci_to_pass env_late (job_of (opts_short_skip\<lparr>ci_timeout_skip := False\<rparr>))
             mr_ex None w_init)
       = Inl (CannotMerge [''CI is taking too long.''])"
proof -
  have h: "\<forall>j. elapsed env_late (case None of None \<Rightarrow> sha mr_ex | Some c \<Rightarrow> c) b (polls w_init) j
                 < 25000000
               \<longrightarrow> \<not> ends_wait
                     (ci_status_at env_late (case None of None \<Rightarrow> sha mr_ex | Some c \<Rightarrow> c)
                        (polls w_init + j))" for b
  proof (intro allI impI)
    fix j
    assume "elapsed env_late (case None of None \<Rightarrow> sha mr_ex | Some c \<Rightarrow> c) b (polls w_init) j
              < 25000000"
    with elapsed_lower [of j env_late "case None of None \<Rightarrow> sha mr_ex | Some c \<Rightarrow> c" b
           "polls w_init"]
    have "int j * 10000000 < 25000000" by linarith
    then have "j < 3" by linarith
    then show "\<not> ends_wait
                (ci_status_at env_late (case None of None \<Rightarrow> sha mr_ex | Some c \<Rightarrow> c)
                   (polls w_init + j))"
      by (simp add: ends_wait_def ci_status_at_def env_late_def example_defs)
  qed
  have h1: "\<forall>j. elapsed env_late (case None of None \<Rightarrow> sha mr_ex | Some c \<Rightarrow> c)
                  (require_ci_run_by_me (self_options (job_of opts_short_skip))) (polls w_init) j
                < ci_timeout (self_options (job_of opts_short_skip))
               \<longrightarrow> \<not> ends_wait
                     (ci_status_at env_late (case None of None \<Rightarrow> sha mr_ex | Some c \<Rightarrow> c)
                        (polls w_init + j))"
    using h by (simp add: opts_short_skip_def job_of_def opts_plain_def)
  show ?thesis
    using ci_timeout_after_polling_every_10s [OF h1]
    by (simp add: ci_defs ci_status_at_def wait_for_ci_loop.simps example_defs env_late_def
        opts_short_skip_def)
qed


end
